theory Spec2Isabelle
  imports Main
begin

section \<open>Flow Journal backend: data model\<close>

text \<open>
  The backend (\<^verbatim>\<open>backend/app.py\<close>) is a set of request handlers over a PostgreSQL
  store. A \<^verbatim>\<open>datetime.date\<close> is represented by its proleptic ordinal and a timestamp by
  a tick count; both keep the total order that \<^verbatim>\<open>ORDER BY\<close> uses.
\<close>

type_synonym date = nat
type_synonym timestamp = nat

text \<open>
  The body of a request that updates the emotion wheel is an arbitrary JSON object,
  received as a Python \<^verbatim>\<open>dict\<close>.
\<close>

datatype json =
    JNull
  | JBool bool
  | JNumber int
  | JString string
  | JArray "json list"
  | JObject "(string \<times> json) list"

subsection \<open>Request bodies (the pydantic models)\<close>

record UserCreate =
  username :: string
  password :: string

record IntroReflection =
  q1_important_events :: string
  q2_current_thoughts :: string
  q3_physical_symptoms :: string
  q4_current_feelings :: string
  q5_brought_closer :: string
  q6_brought_further :: string
  q7_change_in_10_weeks :: string

record DailyEntry =
  entry_date :: date
  energy_level :: "int option"
  selected_emotions :: "string list"
  how_want_to_feel :: "string option"
  daily_mantra :: "string option"
  grateful_1 :: "string option"
  grateful_2 :: "string option"
  grateful_3 :: "string option"
  goal_1 :: "string option"
  goal_2 :: "string option"
  goal_3 :: "string option"
  selfcare_actions :: "string option"
  free_journal :: "string option"
  favorite_moment :: "string option"

record WeeklyReflection =
  week_number :: int
  week_start_date :: date
  week_end_date :: date
  current_mood :: "string option"
  important_results :: "string option"
  important_realizations :: "string option"
  proud_1 :: "string option"
  proud_2 :: "string option"
  proud_3 :: "string option"
  proud_4 :: "string option"
  proud_5 :: "string option"
  change_phase :: "string option"
  change_reflection :: "string option"
  next_week_focus :: "string option"
  task_1 :: "string option"
  task_2 :: "string option"
  task_3 :: "string option"
  task_4 :: "string option"
  task_5 :: "string option"

record FinalReflection =
  q1_starting_point :: string
  q2_feeling_and_goal :: string
  q3_journey_obstacles :: string
  q4_arrival_changes :: string
  q5_self_learning :: string
  q6_future_path :: string
  q7_journaling_impact :: string
  q8_celebration :: string

subsection \<open>Stored rows and the store\<close>

text \<open>
  Modelled from the spec: the table declarations (the SQL schema) are not part of the
  source. The columns are those the statements of \<^verbatim>\<open>app.py\<close> name; the constraints
  are the ones the statements rely on and the data model states: \<^verbatim>\<open>users.id\<close> is
  generated from a sequence and unique, \<^verbatim>\<open>users.username\<close> is unique,
  \<^verbatim>\<open>intro_completed\<close> defaults to false, the creation and update timestamps default
  to \<^verbatim>\<open>NOW()\<close>, there is one settings row per user whose \<^verbatim>\<open>emotion_wheel\<close> has a
  default value, and every \<^verbatim>\<open>ON CONFLICT\<close> target is a unique key. The free-text
  columns are of type \<^verbatim>\<open>text\<close>, \<^verbatim>\<open>emotion_wheel\<close> is a JSON column, which the driver
  reads and writes as JSON text, and \<^verbatim>\<open>energy_level\<close> is an integer column whose width
  in bits is the parameter \<open>energy_level_bits\<close> of the store.
\<close>

record users_row =
  users_id :: nat
  users_username :: string
  users_password_hash :: string
  users_intro_completed :: bool
  users_created_at :: timestamp

record user_settings_row =
  us_user_id :: nat
  us_emotion_wheel :: string
  us_updated_at :: timestamp

record intro_reflection_row =
  ir_user_id :: nat
  ir_answers :: IntroReflection

record daily_entries_row =
  de_user_id :: nat
  de_entry :: DailyEntry
  de_created_at :: timestamp
  de_updated_at :: timestamp

record weekly_reflections_row =
  wr_user_id :: nat
  wr_reflection :: WeeklyReflection

record final_reflection_row =
  fr_user_id :: nat
  fr_answers :: FinalReflection

text \<open>
  A table is the list of its rows in insertion order. \<open>users_id_seq\<close> is the sequence
  behind \<^verbatim>\<open>users.id\<close>, \<open>emotion_wheel_default\<close> the column default of
  \<^verbatim>\<open>user_settings.emotion_wheel\<close> (JSON text), \<open>energy_level_bits\<close> the width of
  \<^verbatim>\<open>daily_entries.energy_level\<close>.
\<close>

record db =
  users :: "users_row list"
  users_id_seq :: nat
  user_settings :: "user_settings_row list"
  emotion_wheel_default :: string
  energy_level_bits :: nat
  intro_reflection :: "intro_reflection_row list"
  daily_entries :: "daily_entries_row list"
  weekly_reflections :: "weekly_reflections_row list"
  final_reflection :: "final_reflection_row list"

subsection \<open>Exceptions, connections, responses\<close>

text \<open>
  \<open>HTTPException\<close> carries the status code, the detail and the headers. The other
  constructors are the exceptions the handlers do not turn into an \<open>HTTPException\<close>;
  they leave the handler and the framework answers 500.
\<close>

datatype exn =
    HTTPException nat string "(string \<times> string) list"
  | UniqueViolationError
  | ConnectionDoesNotExistError
  | DataError
  | TypeError

text \<open>
  A connection acquired from the pool (\<^verbatim>\<open>async with db_pool.acquire() as conn\<close>). No
  handler opens a transaction, so every statement is committed on its own. \<open>clock\<close> is
  what \<^verbatim>\<open>NOW()\<close> evaluates to on this connection; \<open>broken_at\<close> holds the positions
  (from 0) of the statements at which the connection fails instead of executing them.
\<close>

record connection =
  clock :: timestamp
  broken_at :: "nat set"

text \<open>A statement either raises or returns a value; both leave a store behind.\<close>

type_synonym 'a stmt = "db \<Rightarrow> (exn + 'a) \<times> db"

definition execute :: "connection \<Rightarrow> nat \<Rightarrow> 'a stmt \<Rightarrow> 'a stmt" where
  "execute conn k q d =
     (if k \<in> broken_at conn then (Inl ConnectionDoesNotExistError, d) else q d)"

record current_user =
  cu_id :: nat
  cu_username :: string
  cu_intro_completed :: bool

record entry_summary =
  es_entry_date :: date
  es_selected_emotions :: "string list"
  es_created_at :: timestamp

datatype response =
    Message string
  | UserCreated string nat
  | UserStatus nat string bool timestamp
  | IntroRecord intro_reflection_row
  | DailyRecord "daily_entries_row option"
  | EntryList "entry_summary list"
  | WeeklyRecord "weekly_reflections_row option"
  | WeeklyList "weekly_reflections_row list"
  | FinalRecord "final_reflection_row option"
  | EmotionWheel string
  | Health string

type_synonym outcome = "(exn + response) \<times> db"

section \<open>The SQL statements\<close>

subsection \<open>users and user\_settings\<close>

definition select_users_by_credentials :: "string \<Rightarrow> string \<Rightarrow> db \<Rightarrow> current_user option" where
  "select_users_by_credentials name pwhash d =
     map_option
       (\<lambda>u. \<lparr>cu_id = users_id u, cu_username = users_username u,
             cu_intro_completed = users_intro_completed u\<rparr>)
       (find (\<lambda>u. users_username u = name \<and> users_password_hash u = pwhash) (users d))"

definition select_users_by_id :: "nat \<Rightarrow> db \<Rightarrow> users_row option" where
  "select_users_by_id uid d = find (\<lambda>u. users_id u = uid) (users d)"

text \<open>
  \<^verbatim>\<open>INSERT INTO users (username, password_hash) VALUES ($1, $2) RETURNING id\<close>. The
  sequence value is taken before the unique indexes are checked, so a rejected insert
  consumes it as well.
\<close>

definition insert_users :: "string \<Rightarrow> string \<Rightarrow> timestamp \<Rightarrow> nat stmt" where
  "insert_users name pwhash t d =
     (let new_id = Suc (users_id_seq d); d1 = d\<lparr>users_id_seq := new_id\<rparr> in
      if name \<in> set (map users_username (users d)) \<or> new_id \<in> set (map users_id (users d))
      then (Inl UniqueViolationError, d1)
      else (Inr new_id,
            d1\<lparr>users := users d @
                  [\<lparr>users_id = new_id, users_username = name, users_password_hash = pwhash,
                    users_intro_completed = False, users_created_at = t\<rparr>]\<rparr>))"

text \<open>\<^verbatim>\<open>INSERT INTO user_settings (user_id) VALUES ($1)\<close>\<close>

definition insert_user_settings :: "nat \<Rightarrow> timestamp \<Rightarrow> unit stmt" where
  "insert_user_settings uid t d =
     (if uid \<in> set (map us_user_id (user_settings d)) then (Inl UniqueViolationError, d)
      else (Inr (),
            d\<lparr>user_settings := user_settings d @
                  [\<lparr>us_user_id = uid, us_emotion_wheel = emotion_wheel_default d,
                    us_updated_at = t\<rparr>]\<rparr>))"

text \<open>\<^verbatim>\<open>UPDATE users SET intro_completed = TRUE WHERE id = $1\<close>\<close>

definition update_users_intro_completed :: "nat \<Rightarrow> unit stmt" where
  "update_users_intro_completed uid d =
     (Inr (),
      d\<lparr>users := map (\<lambda>u. if users_id u = uid then u\<lparr>users_intro_completed := True\<rparr> else u)
                      (users d)\<rparr>)"

definition select_emotion_wheel :: "nat \<Rightarrow> db \<Rightarrow> string option" where
  "select_emotion_wheel uid d =
     map_option us_emotion_wheel (find (\<lambda>s. us_user_id s = uid) (user_settings d))"

text \<open>
  \<^verbatim>\<open>UPDATE user_settings SET emotion_wheel = $1, updated_at = NOW() WHERE user_id = $2\<close>.
  The handler passes the \<^verbatim>\<open>dict\<close> it received as \<^verbatim>\<open>$1\<close>. No JSON codec is
  registered on the pool and nothing serialises the document, and the driver encodes a
  JSON or text argument from a \<^verbatim>\<open>str\<close> only: a \<^verbatim>\<open>dict\<close> is refused when the
  arguments are encoded, before the statement is run.
\<close>

definition encode_json_argument :: "(string \<times> json) list \<Rightarrow> exn + string" where
  "encode_json_argument document = Inl DataError"

definition update_user_settings :: "(string \<times> json) list \<Rightarrow> nat \<Rightarrow> timestamp \<Rightarrow> unit stmt" where
  "update_user_settings wheel uid t d =
     (case encode_json_argument wheel of
        Inl e \<Rightarrow> (Inl e, d)
      | Inr json_text \<Rightarrow>
          (Inr (),
           d\<lparr>user_settings :=
                map (\<lambda>s. if us_user_id s = uid
                          then s\<lparr>us_emotion_wheel := json_text, us_updated_at := t\<rparr>
                          else s)
                    (user_settings d)\<rparr>))"

subsection \<open>Values the store refuses\<close>

text \<open>
  A text value with a NUL character is refused by the server, an integer outside the
  range of its column when the arguments are encoded; both raise a \<open>DataError\<close> and
  nothing is written.
\<close>

definition text_ok :: "string \<Rightarrow> bool" where
  "text_ok s \<longleftrightarrow> CHR 0x00 \<notin> set s"

definition optional_text_ok :: "string option \<Rightarrow> bool" where
  "optional_text_ok v = (case v of None \<Rightarrow> True | Some s \<Rightarrow> text_ok s)"

definition int_ok :: "nat \<Rightarrow> int \<Rightarrow> bool" where
  "int_ok bits v \<longleftrightarrow> - (2 ^ (bits - 1)) \<le> v \<and> v < 2 ^ (bits - 1)"

definition intro_reflection_ok :: "IntroReflection \<Rightarrow> bool" where
  "intro_reflection_ok x \<longleftrightarrow>
     text_ok (q1_important_events x) \<and> text_ok (q2_current_thoughts x) \<and>
     text_ok (q3_physical_symptoms x) \<and> text_ok (q4_current_feelings x) \<and>
     text_ok (q5_brought_closer x) \<and> text_ok (q6_brought_further x) \<and>
     text_ok (q7_change_in_10_weeks x)"

definition daily_entry_ok :: "db \<Rightarrow> DailyEntry \<Rightarrow> bool" where
  "daily_entry_ok d x \<longleftrightarrow>
     (case energy_level x of None \<Rightarrow> True | Some v \<Rightarrow> int_ok (energy_level_bits d) v) \<and>
     list_all text_ok (selected_emotions x) \<and>
     optional_text_ok (how_want_to_feel x) \<and> optional_text_ok (daily_mantra x) \<and>
     optional_text_ok (grateful_1 x) \<and> optional_text_ok (grateful_2 x) \<and>
     optional_text_ok (grateful_3 x) \<and> optional_text_ok (goal_1 x) \<and>
     optional_text_ok (goal_2 x) \<and> optional_text_ok (goal_3 x) \<and>
     optional_text_ok (selfcare_actions x) \<and> optional_text_ok (free_journal x) \<and>
     optional_text_ok (favorite_moment x)"

subsection \<open>intro\_reflection and final\_reflection\<close>

text \<open>
  \<^verbatim>\<open>INSERT INTO intro_reflection (...) VALUES (...) ON CONFLICT (user_id) DO UPDATE SET\<close>
  followed by the seven answer columns.
\<close>

definition upsert_intro_reflection :: "nat \<Rightarrow> IntroReflection \<Rightarrow> unit stmt" where
  "upsert_intro_reflection uid x d =
     (if \<not> intro_reflection_ok x then (Inl DataError, d) else
     (Inr (),
      if uid \<in> set (map ir_user_id (intro_reflection d))
      then d\<lparr>intro_reflection :=
             map (\<lambda>r. if ir_user_id r = uid
                       then r\<lparr>ir_answers := (ir_answers r)
                              \<lparr>q1_important_events := q1_important_events x,
                               q2_current_thoughts := q2_current_thoughts x,
                               q3_physical_symptoms := q3_physical_symptoms x,
                               q4_current_feelings := q4_current_feelings x,
                               q5_brought_closer := q5_brought_closer x,
                               q6_brought_further := q6_brought_further x,
                               q7_change_in_10_weeks := q7_change_in_10_weeks x\<rparr>\<rparr>
                       else r)
                 (intro_reflection d)\<rparr>
      else d\<lparr>intro_reflection := intro_reflection d @ [\<lparr>ir_user_id = uid, ir_answers = x\<rparr>]\<rparr>))"

definition select_intro_reflection :: "nat \<Rightarrow> db \<Rightarrow> intro_reflection_row option" where
  "select_intro_reflection uid d = find (\<lambda>r. ir_user_id r = uid) (intro_reflection d)"

definition upsert_final_reflection :: "nat \<Rightarrow> FinalReflection \<Rightarrow> unit stmt" where
  "upsert_final_reflection uid x d =
     (Inr (),
      if uid \<in> set (map fr_user_id (final_reflection d))
      then d\<lparr>final_reflection :=
             map (\<lambda>r. if fr_user_id r = uid
                       then r\<lparr>fr_answers := (fr_answers r)
                              \<lparr>q1_starting_point := q1_starting_point x,
                               q2_feeling_and_goal := q2_feeling_and_goal x,
                               q3_journey_obstacles := q3_journey_obstacles x,
                               q4_arrival_changes := q4_arrival_changes x,
                               q5_self_learning := q5_self_learning x,
                               q6_future_path := q6_future_path x,
                               q7_journaling_impact := q7_journaling_impact x,
                               q8_celebration := q8_celebration x\<rparr>\<rparr>
                       else r)
                 (final_reflection d)\<rparr>
      else d\<lparr>final_reflection := final_reflection d @ [\<lparr>fr_user_id = uid, fr_answers = x\<rparr>]\<rparr>)"

definition select_final_reflection :: "nat \<Rightarrow> db \<Rightarrow> final_reflection_row option" where
  "select_final_reflection uid d = find (\<lambda>r. fr_user_id r = uid) (final_reflection d)"

subsection \<open>daily\_entries\<close>

definition daily_key :: "nat \<Rightarrow> date \<Rightarrow> daily_entries_row \<Rightarrow> bool" where
  "daily_key uid day r \<longleftrightarrow> de_user_id r = uid \<and> entry_date (de_entry r) = day"

text \<open>
  The \<^verbatim>\<open>DO UPDATE SET\<close> list of \<^verbatim>\<open>save_daily_entry\<close>: the thirteen content columns
  and \<^verbatim>\<open>updated_at = NOW()\<close>.
\<close>

definition daily_conflict_update :: "DailyEntry \<Rightarrow> timestamp \<Rightarrow> daily_entries_row \<Rightarrow> daily_entries_row" where
  "daily_conflict_update x t r =
     r\<lparr>de_entry := (de_entry r)
          \<lparr>energy_level := energy_level x,
           selected_emotions := selected_emotions x,
           how_want_to_feel := how_want_to_feel x,
           daily_mantra := daily_mantra x,
           grateful_1 := grateful_1 x,
           grateful_2 := grateful_2 x,
           grateful_3 := grateful_3 x,
           goal_1 := goal_1 x,
           goal_2 := goal_2 x,
           goal_3 := goal_3 x,
           selfcare_actions := selfcare_actions x,
           free_journal := free_journal x,
           favorite_moment := favorite_moment x\<rparr>,
       de_updated_at := t\<rparr>"

definition upsert_daily_entries :: "nat \<Rightarrow> DailyEntry \<Rightarrow> timestamp \<Rightarrow> unit stmt" where
  "upsert_daily_entries uid x t d =
     (if \<not> daily_entry_ok d x then (Inl DataError, d) else
     (Inr (),
      if list_ex (daily_key uid (entry_date x)) (daily_entries d)
      then d\<lparr>daily_entries :=
             map (\<lambda>r. if daily_key uid (entry_date x) r then daily_conflict_update x t r else r)
                 (daily_entries d)\<rparr>
      else d\<lparr>daily_entries := daily_entries d @
             [\<lparr>de_user_id = uid, de_entry = x, de_created_at = t, de_updated_at = t\<rparr>]\<rparr>))"

definition select_daily_entry :: "nat \<Rightarrow> date \<Rightarrow> db \<Rightarrow> daily_entries_row option" where
  "select_daily_entry uid day d = find (daily_key uid day) (daily_entries d)"

definition summary :: "daily_entries_row \<Rightarrow> entry_summary" where
  "summary r =
     \<lparr>es_entry_date = entry_date (de_entry r),
      es_selected_emotions = selected_emotions (de_entry r),
      es_created_at = de_created_at r\<rparr>"

text \<open>
  \<^verbatim>\<open>SELECT entry_date, selected_emotions, created_at FROM daily_entries WHERE user_id = $1
  ORDER BY entry_date DESC LIMIT $2\<close>. The limit is a \<^verbatim>\<open>bigint\<close> parameter: a value
  outside that range is refused when it is encoded, a negative one by the server.
\<close>

definition select_entry_summaries :: "nat \<Rightarrow> int \<Rightarrow> entry_summary list stmt" where
  "select_entry_summaries uid lim d =
     (if lim < 0 \<or> 2 ^ 63 \<le> lim then (Inl DataError, d)
      else (Inr (map summary
                  (take (nat lim)
                     (rev (sort_key (\<lambda>r. entry_date (de_entry r))
                             (filter (\<lambda>r. de_user_id r = uid) (daily_entries d)))))),
            d))"

subsection \<open>weekly\_reflections\<close>

definition weekly_key :: "nat \<Rightarrow> int \<Rightarrow> weekly_reflections_row \<Rightarrow> bool" where
  "weekly_key uid wk r \<longleftrightarrow> wr_user_id r = uid \<and> week_number (wr_reflection r) = wk"

text \<open>The \<^verbatim>\<open>DO UPDATE SET\<close> list of \<^verbatim>\<open>save_weekly_reflection\<close>, column by column.\<close>

definition weekly_conflict_update :: "WeeklyReflection \<Rightarrow> weekly_reflections_row \<Rightarrow> weekly_reflections_row" where
  "weekly_conflict_update x r =
     r\<lparr>wr_reflection := (wr_reflection r)
          \<lparr>current_mood := current_mood x,
           important_results := important_results x,
           important_realizations := important_realizations x,
           proud_1 := proud_1 x,
           proud_2 := proud_2 x,
           proud_3 := proud_3 x,
           proud_4 := proud_4 x,
           proud_5 := proud_5 x,
           change_phase := change_phase x,
           change_reflection := change_reflection x,
           next_week_focus := next_week_focus x,
           task_1 := task_1 x,
           task_2 := task_2 x,
           task_3 := task_3 x,
           task_4 := task_4 x,
           task_5 := task_5 x\<rparr>\<rparr>"

definition upsert_weekly_reflections :: "nat \<Rightarrow> WeeklyReflection \<Rightarrow> unit stmt" where
  "upsert_weekly_reflections uid x d =
     (Inr (),
      if list_ex (weekly_key uid (week_number x)) (weekly_reflections d)
      then d\<lparr>weekly_reflections :=
             map (\<lambda>r. if weekly_key uid (week_number x) r then weekly_conflict_update x r else r)
                 (weekly_reflections d)\<rparr>
      else d\<lparr>weekly_reflections := weekly_reflections d @
             [\<lparr>wr_user_id = uid, wr_reflection = x\<rparr>]\<rparr>)"

definition select_weekly_reflection :: "nat \<Rightarrow> int \<Rightarrow> db \<Rightarrow> weekly_reflections_row option" where
  "select_weekly_reflection uid wk d = find (weekly_key uid wk) (weekly_reflections d)"

definition select_weekly_reflections :: "nat \<Rightarrow> db \<Rightarrow> weekly_reflections_row list" where
  "select_weekly_reflections uid d =
     rev (sort_key (\<lambda>r. week_number (wr_reflection r))
            (filter (\<lambda>r. wr_user_id r = uid) (weekly_reflections d)))"

section \<open>The handlers\<close>

text \<open>
  \<^verbatim>\<open>hashlib.sha256(...).hexdigest()\<close> is library code: the digest is a parameter of
  the model, the same function at registration and at verification.
\<close>

type_synonym digest = "string \<Rightarrow> string"

definition hash_password :: "digest \<Rightarrow> string \<Rightarrow> string" where
  "hash_password sha256_hexdigest pw = sha256_hexdigest pw"

record HTTPBasicCredentials =
  cred_username :: string
  cred_password :: string

text \<open>A query whose result is read (\<^verbatim>\<open>fetchrow\<close>, \<^verbatim>\<open>fetch\<close>) and that writes nothing.\<close>

definition fetch :: "connection \<Rightarrow> nat \<Rightarrow> (db \<Rightarrow> 'a) \<Rightarrow> db \<Rightarrow> exn + 'a" where
  "fetch conn k q d = (if k \<in> broken_at conn then Inl ConnectionDoesNotExistError else Inr (q d))"

definition get_current_user :: "digest \<Rightarrow> connection \<Rightarrow> HTTPBasicCredentials \<Rightarrow> db \<Rightarrow> exn + current_user" where
  "get_current_user sha conn credentials d =
     (let name = cred_username credentials;
          password_hash = hash_password sha (cred_password credentials)
      in case fetch conn 0 (select_users_by_credentials name password_hash) d of
           Inl e \<Rightarrow> Inl e
         | Inr None \<Rightarrow>
             Inl (HTTPException 401 ''Invalid credentials'' [(''WWW-Authenticate'', ''Basic'')])
         | Inr (Some user) \<Rightarrow> Inr user)"

text \<open>The \<^verbatim>\<open>except asyncpg.UniqueViolationError\<close> clause of \<^verbatim>\<open>register\<close>.\<close>

definition register_except :: "exn \<Rightarrow> exn" where
  "register_except e =
     (if e = UniqueViolationError then HTTPException 400 ''Username already exists'' [] else e)"

definition register :: "digest \<Rightarrow> connection \<Rightarrow> UserCreate \<Rightarrow> db \<Rightarrow> outcome" where
  "register sha conn user d =
     (let password_hash = hash_password sha (password user) in
      case execute conn 0 (insert_users (username user) password_hash (clock conn)) d of
        (Inl e, d1) \<Rightarrow> (Inl (register_except e), d1)
      | (Inr user_id, d1) \<Rightarrow>
          (case execute conn 1 (insert_user_settings user_id (clock conn)) d1 of
             (Inl e, d2) \<Rightarrow> (Inl (register_except e), d2)
           | (Inr _, d2) \<Rightarrow> (Inr (UserCreated ''User created successfully'' user_id), d2)))"

text \<open>
  \<^verbatim>\<open>get_user_status\<close> subscripts the fetched row without a check; the ISO rendering of
  \<^verbatim>\<open>created_at\<close> is left out (the response carries the timestamp).
\<close>

definition get_user_status :: "connection \<Rightarrow> current_user \<Rightarrow> db \<Rightarrow> outcome" where
  "get_user_status conn cu d =
     (case fetch conn 0 (select_users_by_id (cu_id cu)) d of
        Inl e \<Rightarrow> (Inl e, d)
      | Inr None \<Rightarrow> (Inl TypeError, d)
      | Inr (Some u) \<Rightarrow>
          (Inr (UserStatus (users_id u) (users_username u) (users_intro_completed u)
                  (users_created_at u)), d))"

definition save_intro_reflection :: "connection \<Rightarrow> IntroReflection \<Rightarrow> current_user \<Rightarrow> db \<Rightarrow> outcome" where
  "save_intro_reflection conn reflection cu d =
     (case execute conn 0 (upsert_intro_reflection (cu_id cu) reflection) d of
        (Inl e, d1) \<Rightarrow> (Inl e, d1)
      | (Inr _, d1) \<Rightarrow>
          (case execute conn 1 (update_users_intro_completed (cu_id cu)) d1 of
             (Inl e, d2) \<Rightarrow> (Inl e, d2)
           | (Inr _, d2) \<Rightarrow> (Inr (Message ''Intro reflection saved successfully''), d2)))"

definition get_intro_reflection :: "connection \<Rightarrow> current_user \<Rightarrow> db \<Rightarrow> outcome" where
  "get_intro_reflection conn cu d =
     (case fetch conn 0 (select_intro_reflection (cu_id cu)) d of
        Inl e \<Rightarrow> (Inl e, d)
      | Inr None \<Rightarrow> (Inl (HTTPException 404 ''Intro reflection not found'' []), d)
      | Inr (Some reflection) \<Rightarrow> (Inr (IntroRecord reflection), d))"

definition save_daily_entry :: "connection \<Rightarrow> DailyEntry \<Rightarrow> current_user \<Rightarrow> db \<Rightarrow> outcome" where
  "save_daily_entry conn entry cu d =
     (case execute conn 0 (upsert_daily_entries (cu_id cu) entry (clock conn)) d of
        (Inl e, d1) \<Rightarrow> (Inl e, d1)
      | (Inr _, d1) \<Rightarrow> (Inr (Message ''Entry saved successfully''), d1))"

definition get_daily_entry :: "connection \<Rightarrow> date \<Rightarrow> current_user \<Rightarrow> db \<Rightarrow> outcome" where
  "get_daily_entry conn day cu d =
     (case fetch conn 0 (select_daily_entry (cu_id cu) day) d of
        Inl e \<Rightarrow> (Inl e, d)
      | Inr None \<Rightarrow> (Inr (DailyRecord None), d)
      | Inr (Some entry) \<Rightarrow> (Inr (DailyRecord (Some entry)), d))"

definition list_entries :: "connection \<Rightarrow> int \<Rightarrow> current_user \<Rightarrow> db \<Rightarrow> outcome" where
  "list_entries conn lim cu d =
     (case execute conn 0 (select_entry_summaries (cu_id cu) lim) d of
        (Inl e, d1) \<Rightarrow> (Inl e, d1)
      | (Inr entries, d1) \<Rightarrow> (Inr (EntryList entries), d1))"

definition save_weekly_reflection :: "connection \<Rightarrow> WeeklyReflection \<Rightarrow> current_user \<Rightarrow> db \<Rightarrow> outcome" where
  "save_weekly_reflection conn reflection cu d =
     (case execute conn 0 (upsert_weekly_reflections (cu_id cu) reflection) d of
        (Inl e, d1) \<Rightarrow> (Inl e, d1)
      | (Inr _, d1) \<Rightarrow> (Inr (Message ''Weekly reflection saved successfully''), d1))"

definition get_weekly_reflection :: "connection \<Rightarrow> int \<Rightarrow> current_user \<Rightarrow> db \<Rightarrow> outcome" where
  "get_weekly_reflection conn wk cu d =
     (case fetch conn 0 (select_weekly_reflection (cu_id cu) wk) d of
        Inl e \<Rightarrow> (Inl e, d)
      | Inr None \<Rightarrow> (Inr (WeeklyRecord None), d)
      | Inr (Some reflection) \<Rightarrow> (Inr (WeeklyRecord (Some reflection)), d))"

definition list_weekly_reflections :: "connection \<Rightarrow> current_user \<Rightarrow> db \<Rightarrow> outcome" where
  "list_weekly_reflections conn cu d =
     (case fetch conn 0 (select_weekly_reflections (cu_id cu)) d of
        Inl e \<Rightarrow> (Inl e, d)
      | Inr reflections \<Rightarrow> (Inr (WeeklyList reflections), d))"

definition save_final_reflection :: "connection \<Rightarrow> FinalReflection \<Rightarrow> current_user \<Rightarrow> db \<Rightarrow> outcome" where
  "save_final_reflection conn reflection cu d =
     (case execute conn 0 (upsert_final_reflection (cu_id cu) reflection) d of
        (Inl e, d1) \<Rightarrow> (Inl e, d1)
      | (Inr _, d1) \<Rightarrow> (Inr (Message ''Final reflection saved successfully''), d1))"

definition get_final_reflection :: "connection \<Rightarrow> current_user \<Rightarrow> db \<Rightarrow> outcome" where
  "get_final_reflection conn cu d =
     (case fetch conn 0 (select_final_reflection (cu_id cu)) d of
        Inl e \<Rightarrow> (Inl e, d)
      | Inr None \<Rightarrow> (Inr (FinalRecord None), d)
      | Inr (Some reflection) \<Rightarrow> (Inr (FinalRecord (Some reflection)), d))"

definition get_emotion_wheel :: "connection \<Rightarrow> current_user \<Rightarrow> db \<Rightarrow> outcome" where
  "get_emotion_wheel conn cu d =
     (case fetch conn 0 (select_emotion_wheel (cu_id cu)) d of
        Inl e \<Rightarrow> (Inl e, d)
      | Inr None \<Rightarrow> (Inl (HTTPException 404 ''Settings not found'' []), d)
      | Inr (Some wheel) \<Rightarrow> (Inr (EmotionWheel wheel), d))"

text \<open>
  The request body of \<^verbatim>\<open>update_emotion_wheel\<close> is a \<^verbatim>\<open>dict\<close>, handed to the
  statement as it is. \<^verbatim>\<open>get_emotion_wheel\<close> returns the column as the driver reads it:
  the JSON text.
\<close>

definition update_emotion_wheel :: "connection \<Rightarrow> (string \<times> json) list \<Rightarrow> current_user \<Rightarrow> db \<Rightarrow> outcome" where
  "update_emotion_wheel conn emotion_wheel cu d =
     (case execute conn 0 (update_user_settings emotion_wheel (cu_id cu) (clock conn)) d of
        (Inl e, d1) \<Rightarrow> (Inl e, d1)
      | (Inr _, d1) \<Rightarrow> (Inr (Message ''Emotion wheel updated successfully''), d1))"

definition health_check :: response where
  "health_check = Health ''healthy''"

subsection \<open>The authentication dependency\<close>

text \<open>
  Every handler but \<^verbatim>\<open>register\<close> and \<^verbatim>\<open>health_check\<close> declares
  \<^verbatim>\<open>current_user: dict = Depends(get_current_user)\<close>: the framework runs
  \<^verbatim>\<open>get_current_user\<close> on its own connection first and calls the handler with its
  result, or answers with the exception it raised. \<open>operation\<close> lists these handlers
  with their other arguments; \<^verbatim>\<open>limit\<close> of \<^verbatim>\<open>list_entries\<close> is an optional query
  parameter with default 30.
\<close>

datatype operation =
    GetUserStatus
  | SaveIntroReflection IntroReflection
  | GetIntroReflection
  | SaveDailyEntry DailyEntry
  | GetDailyEntry date
  | ListEntries "int option"
  | SaveWeeklyReflection WeeklyReflection
  | GetWeeklyReflection int
  | ListWeeklyReflections
  | SaveFinalReflection FinalReflection
  | GetFinalReflection
  | GetEmotionWheel
  | UpdateEmotionWheel "(string \<times> json) list"

fun handler :: "connection \<Rightarrow> operation \<Rightarrow> current_user \<Rightarrow> db \<Rightarrow> outcome" where
  "handler conn GetUserStatus = get_user_status conn"
| "handler conn (SaveIntroReflection reflection) = save_intro_reflection conn reflection"
| "handler conn GetIntroReflection = get_intro_reflection conn"
| "handler conn (SaveDailyEntry entry) = save_daily_entry conn entry"
| "handler conn (GetDailyEntry day) = get_daily_entry conn day"
| "handler conn (ListEntries lim) = list_entries conn (case lim of None \<Rightarrow> 30 | Some n \<Rightarrow> n)"
| "handler conn (SaveWeeklyReflection reflection) = save_weekly_reflection conn reflection"
| "handler conn (GetWeeklyReflection wk) = get_weekly_reflection conn wk"
| "handler conn ListWeeklyReflections = list_weekly_reflections conn"
| "handler conn (SaveFinalReflection reflection) = save_final_reflection conn reflection"
| "handler conn GetFinalReflection = get_final_reflection conn"
| "handler conn GetEmotionWheel = get_emotion_wheel conn"
| "handler conn (UpdateEmotionWheel emotion_wheel) = update_emotion_wheel conn emotion_wheel"

definition request :: "digest \<Rightarrow> connection \<Rightarrow> connection \<Rightarrow> HTTPBasicCredentials \<Rightarrow> operation \<Rightarrow> db \<Rightarrow> outcome" where
  "request sha auth_conn conn credentials op d =
     (case get_current_user sha auth_conn credentials d of
        Inl e \<Rightarrow> (Inl e, d)
      | Inr cu \<Rightarrow> handler conn op cu d)"

section \<open>Constraints, request sequences and example data\<close>

text \<open>The unique keys that the \<^verbatim>\<open>ON CONFLICT\<close> clauses and \<^verbatim>\<open>register\<close> rely on.\<close>

definition users_unique :: "db \<Rightarrow> bool" where
  "users_unique d \<longleftrightarrow> distinct (map users_username (users d))"

definition daily_unique :: "db \<Rightarrow> bool" where
  "daily_unique d \<longleftrightarrow>
     distinct (map (\<lambda>r. (de_user_id r, entry_date (de_entry r))) (daily_entries d))"

text \<open>A client sending save requests one after the other, each on its own connection.\<close>

fun save_daily_entries :: "(connection \<times> DailyEntry) list \<Rightarrow> current_user \<Rightarrow> db \<Rightarrow> (exn + response) list \<times> db" where
  "save_daily_entries [] cu d = ([], d)"
| "save_daily_entries (ce # rest) cu d =
     (case save_daily_entry (fst ce) (snd ce) cu d of
        (r, d1) \<Rightarrow> (case save_daily_entries rest cu d1 of (rs, d2) \<Rightarrow> (r # rs, d2)))"

fun save_intro_reflections :: "(connection \<times> IntroReflection \<times> current_user) list \<Rightarrow> db \<Rightarrow> db" where
  "save_intro_reflections [] d = d"
| "save_intro_reflections (cxu # rest) d =
     save_intro_reflections rest
       (snd (save_intro_reflection (fst cxu) (fst (snd cxu)) (snd (snd cxu)) d))"

text \<open>Example data: a working connection, an empty store, a stand-in digest, two users.\<close>

definition healthy :: "timestamp \<Rightarrow> connection" where
  "healthy t = \<lparr>clock = t, broken_at = {}\<rparr>"

definition breaks_at :: "nat \<Rightarrow> timestamp \<Rightarrow> connection" where
  "breaks_at k t = \<lparr>clock = t, broken_at = {k}\<rparr>"

definition empty_db :: db where
  "empty_db =
     \<lparr>users = [], users_id_seq = 0, user_settings = [], emotion_wheel_default = ''{}'',
      energy_level_bits = 32, intro_reflection = [], daily_entries = [],
      weekly_reflections = [], final_reflection = []\<rparr>"

definition sample_digest :: digest where
  "sample_digest pw = rev pw"

definition alice :: UserCreate where
  "alice = \<lparr>username = ''alice'', password = ''wonderland''\<rparr>"

definition bob :: UserCreate where
  "bob = \<lparr>username = ''bob'', password = ''builder''\<rparr>"

definition alice_user :: current_user where
  "alice_user = \<lparr>cu_id = 1, cu_username = ''alice'', cu_intro_completed = False\<rparr>"

definition basic :: "string \<Rightarrow> string \<Rightarrow> HTTPBasicCredentials" where
  "basic name pw = \<lparr>cred_username = name, cred_password = pw\<rparr>"

definition entry_on :: "date \<Rightarrow> int \<Rightarrow> DailyEntry" where
  "entry_on day energy =
     \<lparr>entry_date = day, energy_level = Some energy, selected_emotions = [''calm''],
      how_want_to_feel = None, daily_mantra = None, grateful_1 = None, grateful_2 = None,
      grateful_3 = None, goal_1 = None, goal_2 = None, goal_3 = None,
      selfcare_actions = None, free_journal = None, favorite_moment = None\<rparr>"

definition week_of :: "int \<Rightarrow> date \<Rightarrow> date \<Rightarrow> string \<Rightarrow> WeeklyReflection" where
  "week_of wk start finish mood =
     \<lparr>week_number = wk, week_start_date = start, week_end_date = finish,
      current_mood = Some mood, important_results = None, important_realizations = None,
      proud_1 = None, proud_2 = None, proud_3 = None, proud_4 = None, proud_5 = None,
      change_phase = None, change_reflection = None, next_week_focus = None,
      task_1 = None, task_2 = None, task_3 = None, task_4 = None, task_5 = None\<rparr>"

definition intro_answers :: "string \<Rightarrow> IntroReflection" where
  "intro_answers a =
     \<lparr>q1_important_events = a, q2_current_thoughts = a, q3_physical_symptoms = a,
      q4_current_feelings = a, q5_brought_closer = a, q6_brought_further = a,
      q7_change_in_10_weeks = a\<rparr>"

definition alice_row :: users_row where
  "alice_row =
     \<lparr>users_id = 1, users_username = ''alice'', users_password_hash = ''dnalrednow'',
      users_intro_completed = False, users_created_at = 1\<rparr>"

text \<open>The store after Alice, then Bob, have registered on working connections.\<close>

definition two_users_db :: db where
  "two_users_db =
     snd (register sample_digest (healthy 2) bob
            (snd (register sample_digest (healthy 1) alice empty_db)))"

text \<open>The store after a registration of Alice whose second statement hit a broken connection.\<close>

definition half_registered_db :: db where
  "half_registered_db = snd (register sample_digest (breaks_at 1 1) alice empty_db)"

text \<open>The store after Alice has then saved a daily entry for day 10 at time 5.\<close>

definition alice_day_db :: db where
  "alice_day_db = snd (save_daily_entry (healthy 5) (entry_on 10 5) alice_user two_users_db)"

definition bob_user :: current_user where
  "bob_user = \<lparr>cu_id = 2, cu_username = ''bob'', cu_intro_completed = False\<rparr>"

text \<open>The store after Alice has saved her intro reflection.\<close>

definition alice_intro_db :: db where
  "alice_intro_db =
     snd (request sample_digest (healthy 3) (healthy 4) (basic ''alice'' ''wonderland'')
            (SaveIntroReflection (intro_answers ''rested'')) two_users_db)"

text \<open>
  The store after Bob has saved an entry for day 9 and Alice entries for the days
  3, 1, 5, 2 and 4.
\<close>

definition five_days_db :: db where
  "five_days_db =
     snd (save_daily_entries
            [(healthy 11, entry_on 3 6), (healthy 12, entry_on 1 4), (healthy 13, entry_on 5 7),
             (healthy 14, entry_on 2 5), (healthy 15, entry_on 4 8)]
            alice_user
            (snd (save_daily_entry (healthy 10) (entry_on 9 1) bob_user two_users_db)))"

section \<open>Properties\<close>

subsection \<open>Evaluation of the example data\<close>

lemmas stmt_defs = execute_def fetch_def healthy_def breaks_at_def

lemmas ok_defs = daily_entry_ok_def intro_reflection_ok_def int_ok_def text_ok_def
  optional_text_ok_def

lemmas sample_defs = empty_db_def sample_digest_def alice_def bob_def alice_user_def basic_def

lemma two_users_db_eq:
  "two_users_db =
     \<lparr>users =
        [\<lparr>users_id = 1, users_username = ''alice'', users_password_hash = ''dnalrednow'',
          users_intro_completed = False, users_created_at = 1\<rparr>,
         \<lparr>users_id = 2, users_username = ''bob'', users_password_hash = ''redliub'',
          users_intro_completed = False, users_created_at = 2\<rparr>],
      users_id_seq = 2,
      user_settings =
        [\<lparr>us_user_id = 1, us_emotion_wheel = ''{}'', us_updated_at = 1\<rparr>,
         \<lparr>us_user_id = 2, us_emotion_wheel = ''{}'', us_updated_at = 2\<rparr>],
      emotion_wheel_default = ''{}'', energy_level_bits = 32, intro_reflection = [],
      daily_entries = [], weekly_reflections = [], final_reflection = []\<rparr>"
  by (simp add: two_users_db_def register_def insert_users_def insert_user_settings_def
      hash_password_def stmt_defs sample_defs Let_def)

lemma half_registered_db_eq:
  "half_registered_db =
     \<lparr>users =
        [\<lparr>users_id = 1, users_username = ''alice'', users_password_hash = ''dnalrednow'',
          users_intro_completed = False, users_created_at = 1\<rparr>],
      users_id_seq = 1, user_settings = [], emotion_wheel_default = ''{}'',
      energy_level_bits = 32, intro_reflection = [], daily_entries = [],
      weekly_reflections = [], final_reflection = []\<rparr>"
  by (simp add: half_registered_db_def register_def insert_users_def insert_user_settings_def
      hash_password_def stmt_defs sample_defs Let_def)

lemma alice_day_db_eq:
  "alice_day_db =
     two_users_db\<lparr>daily_entries :=
       [\<lparr>de_user_id = 1, de_entry = entry_on 10 5, de_created_at = 5, de_updated_at = 5\<rparr>]\<rparr>"
  by (simp add: alice_day_db_def save_daily_entry_def upsert_daily_entries_def two_users_db_eq
      stmt_defs sample_defs ok_defs entry_on_def)

lemma find_absent: "\<forall>x\<in>set xs. \<not> P x \<Longrightarrow> find P xs = None"
  by (simp add: find_None_iff)

subsection \<open>Reading a record that was never saved\<close>




subsection \<open>Updating the emotion wheel\<close>

text \<open>
  C9 at a concrete input: Alice is registered without a settings row and sends a document
  to \<^verbatim>\<open>update_emotion_wheel\<close>. The \<^verbatim>\<open>dict\<close> reaches the statement unserialised and
  the driver refuses the arguments, so the handler raises \<open>DataError\<close> where the claim
  has it return its success message. The store is unchanged and \<^verbatim>\<open>get_emotion_wheel\<close>
  raises the 404, as the claim says. The same request is refused when the settings row
  exists.
\<close>

theorem update_emotion_wheel_refused:
  "update_emotion_wheel (healthy 8) [(''joy'', JArray [JString ''glad''])] alice_user
     half_registered_db = (Inl DataError, half_registered_db) \<and>
   get_emotion_wheel (healthy 9) alice_user half_registered_db =
     (Inl (HTTPException 404 ''Settings not found'' []), half_registered_db) \<and>
   update_emotion_wheel (healthy 8) [(''joy'', JArray [JString ''glad''])] alice_user
     two_users_db = (Inl DataError, two_users_db)"
  by (simp add: update_emotion_wheel_def update_user_settings_def encode_json_argument_def
      get_emotion_wheel_def select_emotion_wheel_def half_registered_db_eq stmt_defs
      alice_user_def)

subsection \<open>Registration\<close>

text \<open>
  C1, as stated, fails: \<^verbatim>\<open>register\<close> opens no transaction, so when the connection
  breaks at the second insert the committed user row stays in the store without a
  settings row.
\<close>

theorem register_partial_counterexample:
  "fst (register sample_digest (breaks_at 1 1) alice empty_db) = Inl ConnectionDoesNotExistError \<and>
   users (snd (register sample_digest (breaks_at 1 1) alice empty_db)) = [alice_row] \<and>
   user_settings (snd (register sample_digest (breaks_at 1 1) alice empty_db)) = []"
  by (simp add: register_def insert_users_def insert_user_settings_def register_except_def
      hash_password_def stmt_defs sample_defs alice_row_def Let_def)

text \<open>
  C1 (amended): \<^verbatim>\<open>register\<close> writes the user row and the default settings row in two
  separately committed statements. When the call succeeds, both rows have been added for
  the new user. When the user insert fails (broken connection or taken username), neither
  row is added. Whenever the call fails, no settings row has been added, and the user row
  has been added only if the failure was at the settings insert.
\<close>

theorem register_two_statements:
  assumes "register sha conn user d = (res, d')"
  shows "(\<forall>r. res = Inr r \<longrightarrow>
            r = UserCreated ''User created successfully'' (Suc (users_id_seq d)) \<and>
            users d' = users d @
              [\<lparr>users_id = Suc (users_id_seq d), users_username = username user,
                users_password_hash = sha (password user), users_intro_completed = False,
                users_created_at = clock conn\<rparr>] \<and>
            user_settings d' = user_settings d @
              [\<lparr>us_user_id = Suc (users_id_seq d), us_emotion_wheel = emotion_wheel_default d,
                us_updated_at = clock conn\<rparr>]) \<and>
         (0 \<in> broken_at conn \<or> username user \<in> set (map users_username (users d)) \<longrightarrow>
            isl res \<and> users d' = users d \<and> user_settings d' = user_settings d) \<and>
         (isl res \<longrightarrow>
            user_settings d' = user_settings d \<and>
            (users d' = users d \<or>
             (1 \<in> broken_at conn \<or>
                Suc (users_id_seq d) \<in> set (map us_user_id (user_settings d))) \<and>
             users d' = users d @
              [\<lparr>users_id = Suc (users_id_seq d), users_username = username user,
                users_password_hash = sha (password user), users_intro_completed = False,
                users_created_at = clock conn\<rparr>]))"
  using assms
  by (auto simp: register_def execute_def insert_users_def insert_user_settings_def
      hash_password_def Let_def split: if_splits)

theorem register_two_statements_witness:
  "register sample_digest (healthy 1) alice empty_db =
     (Inr (UserCreated ''User created successfully'' 1),
      snd (register sample_digest (healthy 1) alice empty_db)) \<and>
   users (snd (register sample_digest (healthy 1) alice empty_db)) = [alice_row] \<and>
   user_settings (snd (register sample_digest (healthy 1) alice empty_db)) =
     [\<lparr>us_user_id = 1, us_emotion_wheel = ''{}'', us_updated_at = 1\<rparr>]"
proof -
  have run: "register sample_digest (healthy 1) alice empty_db =
     (Inr (UserCreated ''User created successfully'' 1),
      snd (register sample_digest (healthy 1) alice empty_db))"
    by (simp add: register_def insert_users_def insert_user_settings_def
        hash_password_def stmt_defs sample_defs Let_def)
  show ?thesis
    using register_two_statements [OF run] run
    by (simp add: stmt_defs sample_defs alice_row_def)
qed

subsection \<open>Credentials and the authentication dependency\<close>

lemma find_unique_key:
  "distinct (map f xs) \<Longrightarrow> u \<in> set xs \<Longrightarrow>
   find (\<lambda>x. f x = f u \<and> P x) xs = (if P u then Some u else None)"
proof (induction xs)
  case Nil
  then show ?case by simp
next
  case (Cons x xs)
  show ?case
  proof (cases "x = u")
    case True
    with Cons.prems(1) have "\<forall>y\<in>set xs. f y \<noteq> f u" by (auto simp: image_iff)
    then have "find (\<lambda>x. f x = f u \<and> P x) xs = None" by (simp add: find_absent)
    with True show ?thesis by simp
  next
    case False
    with Cons.prems have "u \<in> set xs" and "f x \<noteq> f u" by auto
    with Cons show ?thesis by simp
  qed
qed

text \<open>
  C7: for every stored user (usernames being unique), checking that user's name with a
  password yields the identity (id, username, intro\_completed) exactly when the digest
  of the password equals the stored hash, and none (which \<^verbatim>\<open>get_current_user\<close>
  turns into the 401) otherwise; the outcome depends on the store only through the
  \<^verbatim>\<open>users\<close> table.
\<close>

theorem verify_credentials:
  assumes "users_unique d" and "u \<in> set (users d)" and "0 \<notin> broken_at conn"
  shows "select_users_by_credentials (users_username u) (hash_password sha pw) d =
           (if sha pw = users_password_hash u
            then Some \<lparr>cu_id = users_id u, cu_username = users_username u,
                       cu_intro_completed = users_intro_completed u\<rparr>
            else None) \<and>
         get_current_user sha conn \<lparr>cred_username = users_username u, cred_password = pw\<rparr> d =
           (if sha pw = users_password_hash u
            then Inr \<lparr>cu_id = users_id u, cu_username = users_username u,
                       cu_intro_completed = users_intro_completed u\<rparr>
            else Inl (HTTPException 401 ''Invalid credentials''
                        [(''WWW-Authenticate'', ''Basic'')])) \<and>
         (\<forall>d'. users d' = users d \<longrightarrow>
            get_current_user sha conn \<lparr>cred_username = users_username u, cred_password = pw\<rparr> d' =
            get_current_user sha conn \<lparr>cred_username = users_username u, cred_password = pw\<rparr> d)"
proof -
  have "find (\<lambda>x. users_username x = users_username u \<and> users_password_hash x = sha pw)
          (users d) = (if users_password_hash u = sha pw then Some u else None)"
    using assms(1,2) unfolding users_unique_def by (rule find_unique_key)
  then have sel: "select_users_by_credentials (users_username u) (hash_password sha pw) d =
           (if sha pw = users_password_hash u
            then Some \<lparr>cu_id = users_id u, cu_username = users_username u,
                       cu_intro_completed = users_intro_completed u\<rparr>
            else None)"
    by (auto simp: select_users_by_credentials_def hash_password_def)
  then have "get_current_user sha conn \<lparr>cred_username = users_username u, cred_password = pw\<rparr> d =
           (if sha pw = users_password_hash u
            then Inr \<lparr>cu_id = users_id u, cu_username = users_username u,
                       cu_intro_completed = users_intro_completed u\<rparr>
            else Inl (HTTPException 401 ''Invalid credentials''
                        [(''WWW-Authenticate'', ''Basic'')]))"
    using assms(3) by (simp add: get_current_user_def fetch_def)
  moreover have "\<forall>d'. users d' = users d \<longrightarrow>
            get_current_user sha conn \<lparr>cred_username = users_username u, cred_password = pw\<rparr> d' =
            get_current_user sha conn \<lparr>cred_username = users_username u, cred_password = pw\<rparr> d"
    by (simp add: get_current_user_def fetch_def select_users_by_credentials_def)
  ultimately show ?thesis using sel by blast
qed

theorem verify_credentials_witness:
  "users_unique two_users_db \<and> alice_row \<in> set (users two_users_db) \<and>
   0 \<notin> broken_at (healthy 3) \<and>
   select_users_by_credentials ''alice'' (hash_password sample_digest ''wonderland'')
     two_users_db = Some alice_user \<and>
   get_current_user sample_digest (healthy 3) (basic ''alice'' ''wonderland'') two_users_db =
     Inr alice_user \<and>
   select_users_by_credentials ''alice'' (hash_password sample_digest ''guess'')
     two_users_db = None \<and>
   get_current_user sample_digest (healthy 3) (basic ''alice'' ''guess'') two_users_db =
     Inl (HTTPException 401 ''Invalid credentials'' [(''WWW-Authenticate'', ''Basic'')])"
  using verify_credentials [of two_users_db alice_row "healthy 3" sample_digest "''wonderland''"]
    verify_credentials [of two_users_db alice_row "healthy 3" sample_digest "''guess''"]
  by (simp add: users_unique_def two_users_db_eq alice_row_def healthy_def sample_defs)



subsection \<open>Saving a weekly reflection twice\<close>

text \<open>
  C3 at a concrete input: Alice has saved week 1 with the dates 10 to 16 and saves week 1
  again with the dates 17 to 23 and another mood. The request is acknowledged, the mood is
  overwritten, and the stored \<^verbatim>\<open>week_start_date\<close> and \<^verbatim>\<open>week_end_date\<close> are still
  10 and 16: the \<^verbatim>\<open>DO UPDATE SET\<close> list does not name them.
\<close>

theorem weekly_upsert_keeps_dates:
  "save_weekly_reflection (healthy 6) (week_of 1 17 23 ''better'') alice_user
     (snd (save_weekly_reflection (healthy 5) (week_of 1 10 16 ''good'') alice_user two_users_db))
   = (Inr (Message ''Weekly reflection saved successfully''),
      two_users_db\<lparr>weekly_reflections :=
        [\<lparr>wr_user_id = 1, wr_reflection = week_of 1 10 16 ''better''\<rparr>]\<rparr>)"
  by (simp add: save_weekly_reflection_def upsert_weekly_reflections_def weekly_key_def
      weekly_conflict_update_def week_of_def two_users_db_eq stmt_defs sample_defs)

subsection \<open>Saving a daily entry\<close>

lemma daily_conflict_update_entry:
  "entry_date (de_entry r) = entry_date x \<Longrightarrow>
   daily_conflict_update x t r =
     \<lparr>de_user_id = de_user_id r, de_entry = x, de_created_at = de_created_at r,
      de_updated_at = t\<rparr>"
  by (cases r, cases x, cases "de_entry r") (simp add: daily_conflict_update_def)

lemma save_daily_entry_healthy:
  "0 \<notin> broken_at conn \<Longrightarrow> daily_entry_ok d x \<Longrightarrow>
   save_daily_entry conn x cu d =
     (Inr (Message ''Entry saved successfully''),
      snd (upsert_daily_entries (cu_id cu) x (clock conn) d))"
  by (simp add: save_daily_entry_def execute_def upsert_daily_entries_def)

lemma save_daily_entry_cases:
  assumes "save_daily_entry conn x cu d = (res, d')"
  shows "isl res \<and> d' = d \<or>
         res = Inr (Message ''Entry saved successfully'') \<and> 0 \<notin> broken_at conn \<and>
         daily_entry_ok d x \<and> d' = snd (upsert_daily_entries (cu_id cu) x (clock conn) d)"
  using assms
  by (auto simp: save_daily_entry_def execute_def upsert_daily_entries_def split: if_splits)

text \<open>
  C10: a save of a daily entry whose (user\_id, entry\_date) is already stored leaves, in
  every row, \<^verbatim>\<open>user_id\<close>, \<^verbatim>\<open>entry_date\<close> and \<^verbatim>\<open>created_at\<close> as they were, and
  changes no other table. When the save is acknowledged, the row with that key gets the
  supplied content and \<^verbatim>\<open>updated_at = NOW()\<close> and every other row is unchanged; when it
  raises, no row is changed.
\<close>

theorem daily_upsert_frame:
  assumes "save_daily_entry conn entry cu d = (res, d')"
    and "r \<in> set (daily_entries d)" and "daily_key (cu_id cu) (entry_date entry) r"
  shows "d' = d\<lparr>daily_entries := daily_entries d'\<rparr> \<and>
         (\<not> isl res \<longrightarrow> res = Inr (Message ''Entry saved successfully'')) \<and>
         list_all2
           (\<lambda>old new.
              de_user_id new = de_user_id old \<and>
              entry_date (de_entry new) = entry_date (de_entry old) \<and>
              de_created_at new = de_created_at old \<and>
              (if daily_key (cu_id cu) (entry_date entry) old \<and> \<not> isl res
               then de_entry new = entry \<and> de_updated_at new = clock conn
               else new = old))
           (daily_entries d) (daily_entries d')"
proof -
  let ?f = "\<lambda>r. if daily_key (cu_id cu) (entry_date entry) r
                 then daily_conflict_update entry (clock conn) r else r"
  from save_daily_entry_cases [OF assms(1)] show ?thesis
  proof (elim disjE conjE)
    assume "isl res" and "d' = d"
    then show ?thesis by (simp add: list_all2_same)
  next
    assume res: "res = Inr (Message ''Entry saved successfully'')"
      and ok: "daily_entry_ok d entry"
      and d': "d' = snd (upsert_daily_entries (cu_id cu) entry (clock conn) d)"
    have "list_ex (daily_key (cu_id cu) (entry_date entry)) (daily_entries d)"
      using assms(2,3) by (auto simp: list_ex_iff)
    with ok d' have "d' = d\<lparr>daily_entries := map ?f (daily_entries d)\<rparr>"
      by (simp add: upsert_daily_entries_def)
    then have rows: "daily_entries d' = map ?f (daily_entries d)"
      and frame: "d' = d\<lparr>daily_entries := daily_entries d'\<rparr>"
      by simp_all
    have "list_all2
           (\<lambda>old new.
              de_user_id new = de_user_id old \<and>
              entry_date (de_entry new) = entry_date (de_entry old) \<and>
              de_created_at new = de_created_at old \<and>
              (if daily_key (cu_id cu) (entry_date entry) old \<and> \<not> isl res
               then de_entry new = entry \<and> de_updated_at new = clock conn
               else new = old))
           (daily_entries d) (daily_entries d')"
      unfolding rows using res
      by (simp add: list_all2_map2 list_all2_same daily_key_def daily_conflict_update_entry)
    with frame res show ?thesis by simp
  qed
qed

theorem daily_upsert_frame_witness:
  "save_daily_entry (healthy 6) (entry_on 10 9) alice_user alice_day_db =
     (Inr (Message ''Entry saved successfully''),
      alice_day_db\<lparr>daily_entries :=
        [\<lparr>de_user_id = 1, de_entry = entry_on 10 9, de_created_at = 5, de_updated_at = 6\<rparr>]\<rparr>) \<and>
   daily_entries alice_day_db =
     [\<lparr>de_user_id = 1, de_entry = entry_on 10 5, de_created_at = 5, de_updated_at = 5\<rparr>] \<and>
   daily_key (cu_id alice_user) (entry_date (entry_on 10 9))
     \<lparr>de_user_id = 1, de_entry = entry_on 10 5, de_created_at = 5, de_updated_at = 5\<rparr>"
proof -
  have run: "save_daily_entry (healthy 6) (entry_on 10 9) alice_user alice_day_db =
     (Inr (Message ''Entry saved successfully''),
      alice_day_db\<lparr>daily_entries :=
        [\<lparr>de_user_id = 1, de_entry = entry_on 10 9, de_created_at = 5, de_updated_at = 6\<rparr>]\<rparr>)"
    by (simp add: alice_day_db_eq two_users_db_eq save_daily_entry_def upsert_daily_entries_def
        daily_conflict_update_def daily_key_def entry_on_def stmt_defs alice_user_def ok_defs)
  have row: "\<lparr>de_user_id = 1, de_entry = entry_on 10 5, de_created_at = 5, de_updated_at = 5\<rparr>
               \<in> set (daily_entries alice_day_db)"
    by (simp add: alice_day_db_eq)
  have key: "daily_key (cu_id alice_user) (entry_date (entry_on 10 9))
     \<lparr>de_user_id = 1, de_entry = entry_on 10 5, de_created_at = 5, de_updated_at = 5\<rparr>"
    by (simp add: daily_key_def entry_on_def alice_user_def)
  show ?thesis
    using daily_upsert_frame [OF run row key] run key by (simp add: alice_day_db_eq)
qed

subsection \<open>Saving a daily entry any number of times\<close>

lemma filter_unique_key:
  "distinct (map k xs) \<Longrightarrow> x \<in> set xs \<Longrightarrow> filter (\<lambda>y. k y = k x) xs = [x]"
proof (induction xs)
  case Nil
  then show ?case by simp
next
  case (Cons a xs)
  show ?case
  proof (cases "a = x")
    case True
    with Cons.prems(1) have "\<forall>y\<in>set xs. k y \<noteq> k x" by (auto simp: image_iff)
    then have "filter (\<lambda>y. k y = k x) xs = []" by (simp add: filter_empty_conv)
    with True show ?thesis by simp
  next
    case False
    with Cons.prems have "x \<in> set xs" and "k a \<noteq> k x" by (auto simp: image_iff)
    with Cons show ?thesis by simp
  qed
qed

lemma daily_conflict_update_key [simp]:
  "de_user_id (daily_conflict_update x t r) = de_user_id r"
  "entry_date (de_entry (daily_conflict_update x t r)) = entry_date (de_entry r)"
  by (simp_all add: daily_conflict_update_def)

lemma upsert_daily_schema [simp]:
  "energy_level_bits (snd (upsert_daily_entries uid x t d)) = energy_level_bits d"
  by (simp add: upsert_daily_entries_def)

lemma upsert_daily_unique:
  assumes "daily_unique d"
  shows "daily_unique (snd (upsert_daily_entries uid x t d))"
proof (cases "daily_entry_ok d x \<and> list_ex (daily_key uid (entry_date x)) (daily_entries d)")
  case True
  have "map (\<lambda>r. (de_user_id r, entry_date (de_entry r)))
          (map (\<lambda>r. if daily_key uid (entry_date x) r then daily_conflict_update x t r else r)
             (daily_entries d))
        = map (\<lambda>r. (de_user_id r, entry_date (de_entry r))) (daily_entries d)"
    by simp
  with True assms show ?thesis
    by (simp add: daily_unique_def upsert_daily_entries_def del: map_map)
next
  case False
  show ?thesis
  proof (cases "daily_entry_ok d x")
    case True
    with False have "(uid, entry_date x) \<notin>
               set (map (\<lambda>r. (de_user_id r, entry_date (de_entry r))) (daily_entries d))"
      by (auto simp: list_ex_iff daily_key_def)
    with True False assms show ?thesis
      by (simp add: daily_unique_def upsert_daily_entries_def)
  next
    case False
    with assms show ?thesis by (simp add: upsert_daily_entries_def)
  qed
qed

lemma save_daily_entry_unique:
  assumes "daily_unique d"
  shows "daily_unique (snd (save_daily_entry conn x cu d))"
  using save_daily_entry_cases [of conn x cu d "fst (save_daily_entry conn x cu d)"
      "snd (save_daily_entry conn x cu d)"] assms
  by (auto simp: upsert_daily_unique)

lemma save_daily_entries_Cons:
  "fst (save_daily_entries (ce # rest) cu d) =
     fst (save_daily_entry (fst ce) (snd ce) cu d) #
     fst (save_daily_entries rest cu (snd (save_daily_entry (fst ce) (snd ce) cu d)))"
  "snd (save_daily_entries (ce # rest) cu d) =
     snd (save_daily_entries rest cu (snd (save_daily_entry (fst ce) (snd ce) cu d)))"
  by (simp_all split: prod.splits)

lemma save_daily_entries_snoc:
  "fst (save_daily_entries (saves @ [ce]) cu d) =
     fst (save_daily_entries saves cu d) @
     [fst (save_daily_entry (fst ce) (snd ce) cu (snd (save_daily_entries saves cu d)))]"
  "snd (save_daily_entries (saves @ [ce]) cu d) =
     snd (save_daily_entry (fst ce) (snd ce) cu (snd (save_daily_entries saves cu d)))"
  by (induction saves arbitrary: d)
    (simp_all add: save_daily_entries_Cons del: save_daily_entries.simps(2))

lemma save_daily_entries_unique:
  "daily_unique d \<Longrightarrow> daily_unique (snd (save_daily_entries saves cu d))"
  by (induction saves rule: rev_induct)
    (simp_all add: save_daily_entries_snoc save_daily_entry_unique)

lemma upsert_daily_one_row:
  assumes "daily_unique d" and "daily_entry_ok d x"
  shows "\<exists>r. filter (daily_key uid (entry_date x))
                (daily_entries (snd (upsert_daily_entries uid x t d))) = [r] \<and>
             de_entry r = x"
proof (cases "list_ex (daily_key uid (entry_date x)) (daily_entries d)")
  case True
  then obtain r where r: "r \<in> set (daily_entries d)" "daily_key uid (entry_date x) r"
    by (auto simp: list_ex_iff)
  let ?k = "\<lambda>r. (de_user_id r, entry_date (de_entry r))"
  let ?f = "\<lambda>r. if daily_key uid (entry_date x) r then daily_conflict_update x t r else r"
  have same: "daily_key uid (entry_date x) = (\<lambda>y. ?k y = ?k r)"
    using r(2) by (auto simp: daily_key_def)
  have "filter (daily_key uid (entry_date x)) (map ?f (daily_entries d))
        = map ?f (filter (daily_key uid (entry_date x) \<circ> ?f) (daily_entries d))"
    by (simp add: filter_map)
  also have "daily_key uid (entry_date x) \<circ> ?f = daily_key uid (entry_date x)"
    by (auto simp: fun_eq_iff daily_key_def daily_conflict_update_entry)
  also have "filter (daily_key uid (entry_date x)) (daily_entries d) = [r]"
    unfolding same using assms(1) r(1) unfolding daily_unique_def by (rule filter_unique_key)
  finally have "filter (daily_key uid (entry_date x)) (map ?f (daily_entries d))
                  = [daily_conflict_update x t r]"
    using r(2) by simp
  moreover have "de_entry (daily_conflict_update x t r) = x"
    using r(2) by (simp add: daily_key_def daily_conflict_update_entry)
  ultimately show ?thesis using True assms(2) by (simp add: upsert_daily_entries_def)
next
  case False
  then have "filter (daily_key uid (entry_date x)) (daily_entries d) = []"
    by (auto simp: list_ex_iff filter_empty_conv)
  with False assms(2) show ?thesis by (simp add: upsert_daily_entries_def daily_key_def)
qed

lemma upsert_daily_replay:
  assumes "filter (daily_key uid (entry_date x)) (daily_entries d) = [r]" and "de_entry r = x"
    and "daily_entry_ok d x"
  shows "snd (upsert_daily_entries uid x t d) =
           d\<lparr>daily_entries :=
               map (\<lambda>r. if daily_key uid (entry_date x) r then r\<lparr>de_updated_at := t\<rparr> else r)
                 (daily_entries d)\<rparr>"
proof -
  have "r \<in> set (filter (daily_key uid (entry_date x)) (daily_entries d))"
    using assms(1) by simp
  then have ex: "list_ex (daily_key uid (entry_date x)) (daily_entries d)"
    by (auto simp: list_ex_iff)
  have "\<forall>y\<in>set (daily_entries d). daily_key uid (entry_date x) y \<longrightarrow> y = r"
  proof (intro ballI impI)
    fix y assume "y \<in> set (daily_entries d)" "daily_key uid (entry_date x) y"
    then have "y \<in> set (filter (daily_key uid (entry_date x)) (daily_entries d))" by simp
    with assms(1) show "y = r" by simp
  qed
  then have "map (\<lambda>r. if daily_key uid (entry_date x) r then daily_conflict_update x t r else r)
               (daily_entries d)
             = map (\<lambda>r. if daily_key uid (entry_date x) r then r\<lparr>de_updated_at := t\<rparr> else r)
                 (daily_entries d)"
    using assms(2) by (auto simp: daily_key_def daily_conflict_update_entry)
  with ex assms(3) show ?thesis by (simp add: upsert_daily_entries_def)
qed

lemma three_saves_eq:
  "save_daily_entries
     [(healthy 5, entry_on 10 5), (healthy 6, entry_on 10 9223372036854775808),
      (healthy 7, entry_on 10 9)] alice_user two_users_db =
   ([Inr (Message ''Entry saved successfully''), Inl DataError,
     Inr (Message ''Entry saved successfully'')],
    two_users_db\<lparr>daily_entries :=
      [\<lparr>de_user_id = 1, de_entry = entry_on 10 9, de_created_at = 5, de_updated_at = 7\<rparr>]\<rparr>)"
  by (simp add: save_daily_entry_def upsert_daily_entries_def daily_conflict_update_def
      daily_key_def entry_on_def two_users_db_eq stmt_defs alice_user_def ok_defs)

text \<open>
  C4: starting from a store that satisfies the unique key of \<^verbatim>\<open>daily_entries\<close>, after
  any non-empty sequence of saves by a user of which the latest was acknowledged, there is
  exactly one row for that user and the latest \<^verbatim>\<open>entry_date\<close>, its fields are those of
  the latest save, and the key is still unique in the table. Sending the latest request
  once more on a working connection is acknowledged again and leaves the store as it is,
  except that the \<^verbatim>\<open>updated_at\<close> of that row is refreshed.
\<close>

theorem daily_upsert_converges:
  assumes "daily_unique d" and "saves \<noteq> []"
    and "last (fst (save_daily_entries saves cu d)) = Inr ack"
    and "0 \<notin> broken_at conn"
  shows "(\<exists>r. filter (daily_key (cu_id cu) (entry_date (snd (last saves))))
                 (daily_entries (snd (save_daily_entries saves cu d))) = [r] \<and>
              de_entry r = snd (last saves)) \<and>
         daily_unique (snd (save_daily_entries saves cu d)) \<and>
         save_daily_entry conn (snd (last saves)) cu (snd (save_daily_entries saves cu d)) =
           (Inr (Message ''Entry saved successfully''),
            (snd (save_daily_entries saves cu d))
              \<lparr>daily_entries :=
                 map (\<lambda>r. if daily_key (cu_id cu) (entry_date (snd (last saves))) r
                           then r\<lparr>de_updated_at := clock conn\<rparr> else r)
                   (daily_entries (snd (save_daily_entries saves cu d)))\<rparr>)"
proof -
  define before where "before = snd (save_daily_entries (butlast saves) cu d)"
  define x where "x = snd (last saves)"
  define c where "c = fst (last saves)"
  define after where "after = snd (save_daily_entries saves cu d)"
  have split: "saves = butlast saves @ [last saves]"
    using assms(2) by simp
  have after: "after = snd (save_daily_entry c x cu before)"
    unfolding after_def before_def c_def x_def
    by (subst split) (simp only: save_daily_entries_snoc)
  have "last (fst (save_daily_entries saves cu d)) = fst (save_daily_entry c x cu before)"
    unfolding before_def c_def x_def
    by (subst split) (simp only: save_daily_entries_snoc last_snoc)
  with assms(3) have "save_daily_entry c x cu before = (Inr ack, after)"
    using after by (simp add: prod_eq_iff)
  from save_daily_entry_cases [OF this]
  have ok: "daily_entry_ok before x"
    and step: "after = snd (upsert_daily_entries (cu_id cu) x (clock c) before)"
    by auto
  have uniq_before: "daily_unique before"
    unfolding before_def using assms(1) by (rule save_daily_entries_unique)
  have uniq_after: "daily_unique after"
    unfolding after_def using assms(1) by (rule save_daily_entries_unique)
  from upsert_daily_one_row [OF uniq_before ok, of "cu_id cu" "clock c"] step
  obtain r where r: "filter (daily_key (cu_id cu) (entry_date x)) (daily_entries after) = [r]"
    "de_entry r = x"
    by auto
  have ok_after: "daily_entry_ok after x"
    using ok unfolding step by (simp add: daily_entry_ok_def split: option.splits)
  have "save_daily_entry conn x cu after =
          (Inr (Message ''Entry saved successfully''),
           snd (upsert_daily_entries (cu_id cu) x (clock conn) after))"
    using assms(4) ok_after by (rule save_daily_entry_healthy)
  also have "snd (upsert_daily_entries (cu_id cu) x (clock conn) after) =
      after\<lparr>daily_entries :=
               map (\<lambda>r. if daily_key (cu_id cu) (entry_date x) r
                         then r\<lparr>de_updated_at := clock conn\<rparr> else r)
                 (daily_entries after)\<rparr>"
    using r ok_after by (rule upsert_daily_replay)
  finally show ?thesis
    using r uniq_after unfolding after_def x_def by blast
qed

theorem daily_upsert_converges_witness:
  "daily_unique two_users_db \<and>
   save_daily_entries
     [(healthy 5, entry_on 10 5), (healthy 6, entry_on 10 9223372036854775808),
      (healthy 7, entry_on 10 9)] alice_user two_users_db =
   ([Inr (Message ''Entry saved successfully''), Inl DataError,
     Inr (Message ''Entry saved successfully'')],
    two_users_db\<lparr>daily_entries :=
      [\<lparr>de_user_id = 1, de_entry = entry_on 10 9, de_created_at = 5, de_updated_at = 7\<rparr>]\<rparr>) \<and>
   0 \<notin> broken_at (healthy 8) \<and>
   save_daily_entry (healthy 8) (entry_on 10 9) alice_user
     (two_users_db\<lparr>daily_entries :=
        [\<lparr>de_user_id = 1, de_entry = entry_on 10 9, de_created_at = 5, de_updated_at = 7\<rparr>]\<rparr>) =
   (Inr (Message ''Entry saved successfully''),
    two_users_db\<lparr>daily_entries :=
      [\<lparr>de_user_id = 1, de_entry = entry_on 10 9, de_created_at = 5, de_updated_at = 8\<rparr>]\<rparr>)"
proof -
  have h1: "daily_unique two_users_db"
    by (simp add: daily_unique_def two_users_db_eq)
  have h3: "last (fst (save_daily_entries
     [(healthy 5, entry_on 10 5), (healthy 6, entry_on 10 9223372036854775808),
      (healthy 7, entry_on 10 9)] alice_user two_users_db)) =
      Inr (Message ''Entry saved successfully'')"
    unfolding three_saves_eq by simp
  have h4: "0 \<notin> broken_at (healthy 8)"
    by (simp add: healthy_def)
  show ?thesis
    using daily_upsert_converges [OF h1 _ h3 h4] h1 h4
    unfolding three_saves_eq
    by (simp add: daily_key_def entry_on_def alice_user_def healthy_def)
qed

subsection \<open>Saving the intro reflection\<close>

lemma save_intro_reflection_users:
  "users (snd (save_intro_reflection conn x cu d)) = users d \<or>
   users (snd (save_intro_reflection conn x cu d)) =
     map (\<lambda>u. if users_id u = cu_id cu then u\<lparr>users_intro_completed := True\<rparr> else u) (users d)"
  by (simp add: save_intro_reflection_def execute_def upsert_intro_reflection_def
      update_users_intro_completed_def)

lemma save_intro_reflection_success:
  "save_intro_reflection conn x cu d = (Inr r, d') \<Longrightarrow>
   users d' =
     map (\<lambda>u. if users_id u = cu_id cu then u\<lparr>users_intro_completed := True\<rparr> else u) (users d)"
  by (auto simp: save_intro_reflection_def execute_def upsert_intro_reflection_def
      update_users_intro_completed_def split: if_splits)

lemma save_intro_reflection_monotone:
  "list_all2 (\<lambda>u u'. users_id u' = users_id u \<and>
                      (users_intro_completed u \<longrightarrow> users_intro_completed u'))
     (users d) (users (snd (save_intro_reflection conn x cu d)))"
  using save_intro_reflection_users [of conn x cu d]
  by (auto simp: list_all2_map2 list_all2_same)

lemma save_intro_reflections_monotone:
  "list_all2 (\<lambda>u u'. users_id u' = users_id u \<and>
                      (users_intro_completed u \<longrightarrow> users_intro_completed u'))
     (users d) (users (save_intro_reflections saves d))"
proof (induction saves arbitrary: d)
  case Nil
  show ?case by (simp add: list_all2_same)
next
  case (Cons s saves)
  let ?R = "\<lambda>u u'. users_id u' = users_id u \<and>
                      (users_intro_completed u \<longrightarrow> users_intro_completed u')"
  let ?d1 = "snd (save_intro_reflection (fst s) (fst (snd s)) (snd (snd s)) d)"
  have "list_all2 ?R (users d) (users ?d1)" by (rule save_intro_reflection_monotone)
  moreover have "list_all2 ?R (users ?d1) (users (save_intro_reflections saves ?d1))"
    by (rule Cons.IH)
  ultimately have "list_all2 ?R (users d) (users (save_intro_reflections saves ?d1))"
    by (rule list_all2_trans [rotated]) auto
  then show ?case by simp
qed

lemma get_current_user_row:
  "get_current_user sha conn credentials d = Inr cu \<Longrightarrow>
   \<exists>u\<in>set (users d). users_id u = cu_id cu \<and> users_username u = cred_username credentials"
  by (auto simp: get_current_user_def fetch_def select_users_by_credentials_def Let_def
      find_Some_iff split: if_splits option.splits)

lemma alice_intro_request:
  "request sample_digest (healthy 3) (healthy 4) (basic ''alice'' ''wonderland'')
     (SaveIntroReflection (intro_answers ''rested'')) two_users_db =
   (Inr (Message ''Intro reflection saved successfully''), alice_intro_db)"
  by (simp add: alice_intro_db_def request_def get_current_user_def
      select_users_by_credentials_def hash_password_def save_intro_reflection_def
      upsert_intro_reflection_def update_users_intro_completed_def two_users_db_eq
      stmt_defs sample_defs ok_defs intro_answers_def)

lemma alice_intro_db_eq:
  "alice_intro_db =
     two_users_db\<lparr>users :=
        [\<lparr>users_id = 1, users_username = ''alice'', users_password_hash = ''dnalrednow'',
          users_intro_completed = True, users_created_at = 1\<rparr>,
         \<lparr>users_id = 2, users_username = ''bob'', users_password_hash = ''redliub'',
          users_intro_completed = False, users_created_at = 2\<rparr>],
       intro_reflection := [\<lparr>ir_user_id = 1, ir_answers = intro_answers ''rested''\<rparr>]\<rparr>"
  by (simp add: alice_intro_db_def request_def get_current_user_def
      select_users_by_credentials_def hash_password_def save_intro_reflection_def
      upsert_intro_reflection_def update_users_intro_completed_def two_users_db_eq
      stmt_defs sample_defs ok_defs intro_answers_def)

text \<open>
  C5: when a request to save an intro reflection succeeds, the authenticated user's row
  has \<^verbatim>\<open>intro_completed\<close> true afterwards and the row of every other user is unchanged;
  and whatever intro-reflection saves follow (by any user, on any connection, succeeding
  or not), no user's flag goes back from true to false.
\<close>

theorem intro_completed_flag:
  assumes "request sha auth_conn conn credentials (SaveIntroReflection x) d = (Inr r, d')"
  shows "\<exists>cu. get_current_user sha auth_conn credentials d = Inr cu \<and>
           (\<exists>u\<in>set (users d'). users_id u = cu_id cu \<and> users_intro_completed u) \<and>
           list_all2
             (\<lambda>u u'. if users_id u = cu_id cu then u' = u\<lparr>users_intro_completed := True\<rparr>
                      else u' = u)
             (users d) (users d') \<and>
           (\<forall>saves.
              list_all2
                (\<lambda>u u'. users_id u' = users_id u \<and>
                         (users_intro_completed u \<longrightarrow> users_intro_completed u'))
                (users d') (users (save_intro_reflections saves d')))"
proof -
  from assms obtain cu where cu: "get_current_user sha auth_conn credentials d = Inr cu"
    and run: "save_intro_reflection conn x cu d = (Inr r, d')"
    by (auto simp: request_def split: sum.splits)
  let ?f = "\<lambda>u. if users_id u = cu_id cu then u\<lparr>users_intro_completed := True\<rparr> else u"
  from run have users': "users d' = map ?f (users d)" by (rule save_intro_reflection_success)
  from cu obtain u where u: "u \<in> set (users d)" "users_id u = cu_id cu"
    using get_current_user_row by blast
  then have "?f u \<in> set (users d')" unfolding users' set_map by (intro imageI)
  with u(2) have "\<exists>u\<in>set (users d'). users_id u = cu_id cu \<and> users_intro_completed u"
    by (intro bexI [of _ "?f u"]) simp_all
  moreover have "list_all2
             (\<lambda>u u'. if users_id u = cu_id cu then u' = u\<lparr>users_intro_completed := True\<rparr>
                      else u' = u)
             (users d) (users d')"
    unfolding users' by (simp add: list_all2_map2 list_all2_same)
  ultimately show ?thesis using cu save_intro_reflections_monotone by blast
qed

theorem intro_completed_flag_witness:
  "request sample_digest (healthy 3) (healthy 4) (basic ''alice'' ''wonderland'')
     (SaveIntroReflection (intro_answers ''rested'')) two_users_db =
   (Inr (Message ''Intro reflection saved successfully''), alice_intro_db) \<and>
   map users_intro_completed (users two_users_db) = [False, False] \<and>
   map users_intro_completed (users alice_intro_db) = [True, False] \<and>
   map users_intro_completed
     (users (save_intro_reflections
               [(healthy 5, intro_answers ''calm'', alice_user),
                (breaks_at 1 6, intro_answers ''tired'', alice_user)] alice_intro_db))
     = [True, False]"
  using intro_completed_flag [OF alice_intro_request] alice_intro_request
  by (simp add: alice_intro_db_eq two_users_db_eq save_intro_reflection_def
      upsert_intro_reflection_def update_users_intro_completed_def stmt_defs alice_user_def
      ok_defs intro_answers_def)

subsection \<open>Listing daily entries\<close>

lemma user_dates_distinct:
  assumes "daily_unique d"
  shows "distinct (map (\<lambda>r. entry_date (de_entry r))
                     (filter (\<lambda>r. de_user_id r = uid) (daily_entries d)))"
proof -
  let ?k = "\<lambda>r. (de_user_id r, entry_date (de_entry r))"
  from assms have dist: "distinct (daily_entries d)" and inj: "inj_on ?k (set (daily_entries d))"
    by (simp_all add: daily_unique_def distinct_map)
  have "inj_on (\<lambda>r. entry_date (de_entry r))
          (set (filter (\<lambda>r. de_user_id r = uid) (daily_entries d)))"
  proof (rule inj_onI)
    fix a b
    assume a: "a \<in> set (filter (\<lambda>r. de_user_id r = uid) (daily_entries d))"
      and b: "b \<in> set (filter (\<lambda>r. de_user_id r = uid) (daily_entries d))"
      and eq: "entry_date (de_entry a) = entry_date (de_entry b)"
    then have "?k a = ?k b" by simp
    with inj a b show "a = b" by (auto dest: inj_onD)
  qed
  with dist show ?thesis by (simp add: distinct_map)
qed

lemma newest_first:
  assumes "distinct (map f xs)"
  shows "sorted_wrt (\<lambda>a b. f b < f a) (rev (sort_key f xs))"
proof -
  have "sorted (map f (sort_key f xs))" by (rule sorted_sort_key)
  moreover have "distinct (map f (sort_key f xs))"
    using assms by (simp add: distinct_map)
  ultimately have "sorted_wrt (<) (map f (sort_key f xs))"
    by (simp add: strict_sorted_iff)
  then show ?thesis by (simp add: sorted_wrt_rev sorted_wrt_map)
qed

lemma five_days_db_eq:
  "five_days_db =
     two_users_db\<lparr>daily_entries :=
       [\<lparr>de_user_id = 2, de_entry = entry_on 9 1, de_created_at = 10, de_updated_at = 10\<rparr>,
        \<lparr>de_user_id = 1, de_entry = entry_on 3 6, de_created_at = 11, de_updated_at = 11\<rparr>,
        \<lparr>de_user_id = 1, de_entry = entry_on 1 4, de_created_at = 12, de_updated_at = 12\<rparr>,
        \<lparr>de_user_id = 1, de_entry = entry_on 5 7, de_created_at = 13, de_updated_at = 13\<rparr>,
        \<lparr>de_user_id = 1, de_entry = entry_on 2 5, de_created_at = 14, de_updated_at = 14\<rparr>,
        \<lparr>de_user_id = 1, de_entry = entry_on 4 8, de_created_at = 15, de_updated_at = 15\<rparr>]\<rparr>"
  by (simp add: five_days_db_def save_daily_entry_def upsert_daily_entries_def daily_key_def
      entry_on_def two_users_db_eq stmt_defs alice_user_def bob_user_def ok_defs)

lemma five_days_unique: "daily_unique five_days_db"
  by (simp add: five_days_db_eq daily_unique_def entry_on_def)

text \<open>
  C8: on a working connection and with a limit the store accepts, \<^verbatim>\<open>list_entries\<close>
  returns the summaries (entry\_date, selected\_emotions, created\_at) of rows of the
  calling user only, as many as the limit allows, in strictly descending order of
  \<^verbatim>\<open>entry_date\<close>; every entry of the user that is left out is older than every entry
  returned; a request without \<^verbatim>\<open>limit\<close> uses 30. The witness is the scenario of the
  claim: five distinct dates, limit 2, the two most recent dates come back.
\<close>

theorem list_entries_newest_first:
  assumes "0 \<notin> broken_at conn" and "0 \<le> lim" and "lim < 2 ^ 63" and "daily_unique d"
  shows "\<exists>rows. list_entries conn lim cu d = (Inr (EntryList (map summary rows)), d) \<and>
           set rows \<subseteq> {r \<in> set (daily_entries d). de_user_id r = cu_id cu} \<and>
           length rows =
             min (nat lim) (length (filter (\<lambda>r. de_user_id r = cu_id cu) (daily_entries d))) \<and>
           sorted_wrt (\<lambda>a b. entry_date (de_entry b) < entry_date (de_entry a)) rows \<and>
           (\<forall>r\<in>set (daily_entries d). de_user_id r = cu_id cu \<and> r \<notin> set rows \<longrightarrow>
              (\<forall>k\<in>set rows. entry_date (de_entry r) < entry_date (de_entry k))) \<and>
           handler conn (ListEntries None) cu d = list_entries conn 30 cu d"
proof -
  define own where "own = filter (\<lambda>r. de_user_id r = cu_id cu) (daily_entries d)"
  define ordered where "ordered = rev (sort_key (\<lambda>r. entry_date (de_entry r)) own)"
  define rows where "rows = take (nat lim) ordered"
  have run: "list_entries conn lim cu d = (Inr (EntryList (map summary rows)), d)"
    using assms(1-3)
    by (simp add: list_entries_def execute_def select_entry_summaries_def rows_def
        ordered_def own_def)
  have set_ordered: "set ordered = set own" by (simp add: ordered_def)
  have desc: "sorted_wrt (\<lambda>a b. entry_date (de_entry b) < entry_date (de_entry a)) ordered"
    unfolding ordered_def own_def using user_dates_distinct [OF assms(4)] by (rule newest_first)
  have sub: "set rows \<subseteq> {r \<in> set (daily_entries d). de_user_id r = cu_id cu}"
    using set_take_subset [of "nat lim" ordered] by (auto simp: rows_def set_ordered own_def)
  have len: "length rows = min (nat lim) (length own)"
    by (simp add: rows_def ordered_def min.commute)
  have desc_rows: "sorted_wrt (\<lambda>a b. entry_date (de_entry b) < entry_date (de_entry a)) rows"
    unfolding rows_def using desc by (rule sorted_wrt_take)
  have rest: "\<forall>r\<in>set (daily_entries d). de_user_id r = cu_id cu \<and> r \<notin> set rows \<longrightarrow>
              (\<forall>k\<in>set rows. entry_date (de_entry r) < entry_date (de_entry k))"
  proof (intro ballI impI)
    fix r k
    assume r: "r \<in> set (daily_entries d)" and "de_user_id r = cu_id cu \<and> r \<notin> set rows"
      and k: "k \<in> set rows"
    then have "r \<in> set ordered" and "r \<notin> set (take (nat lim) ordered)"
      by (simp_all add: set_ordered own_def rows_def)
    then have "r \<in> set (drop (nat lim) ordered)"
      using set_append [of "take (nat lim) ordered" "drop (nat lim) ordered"] by auto
    moreover have "sorted_wrt (\<lambda>a b. entry_date (de_entry b) < entry_date (de_entry a))
                     (take (nat lim) ordered @ drop (nat lim) ordered)"
      using desc by simp
    ultimately show "entry_date (de_entry r) < entry_date (de_entry k)"
      using k unfolding rows_def sorted_wrt_append by blast
  qed
  have "handler conn (ListEntries None) cu d = list_entries conn 30 cu d" by simp
  with run sub len desc_rows rest show ?thesis unfolding own_def by blast
qed

theorem list_entries_newest_first_witness:
  "0 \<notin> broken_at (healthy 20) \<and> (0::int) \<le> 2 \<and> (2::int) < 2 ^ 63 \<and>
   daily_unique five_days_db \<and>
   list_entries (healthy 20) 2 alice_user five_days_db =
     (Inr (EntryList
        [\<lparr>es_entry_date = 5, es_selected_emotions = [''calm''], es_created_at = 13\<rparr>,
         \<lparr>es_entry_date = 4, es_selected_emotions = [''calm''], es_created_at = 15\<rparr>]),
      five_days_db)"
proof -
  have h1: "0 \<notin> broken_at (healthy 20)" by (simp add: healthy_def)
  have run: "list_entries (healthy 20) 2 alice_user five_days_db =
     (Inr (EntryList
        [\<lparr>es_entry_date = 5, es_selected_emotions = [''calm''], es_created_at = 13\<rparr>,
         \<lparr>es_entry_date = 4, es_selected_emotions = [''calm''], es_created_at = 15\<rparr>]),
      five_days_db)"
    by (simp add: list_entries_def select_entry_summaries_def summary_def five_days_db_eq
        entry_on_def stmt_defs alice_user_def sort_key_def numeral_2_eq_2)
  show ?thesis
    using list_entries_newest_first [OF h1 _ _ five_days_unique, of 2 alice_user] h1 run
      five_days_unique
    by simp
qed

end
